theory Spec2Isabelle
  imports
    Complex_Main
    "HOL-Library.AList"
    "HOL-Library.Char_ord"
    "HOL-Library.List_Lexorder"
    "HOL-Library.Product_Lexorder"
begin

section \<open>Python values\<close>

text \<open>
  Exceptions of the Python source are values: a computation returns \<open>Inl e\<close> where the
  source raises \<open>e\<close> and \<open>Inr v\<close> where it returns \<open>v\<close>.
\<close>

datatype py_error = KeyError | ValueError | IndexError | TypeError | AssertionError

text \<open>
  \<open>Series.str.contains(pat)\<close> for a pattern without regular-expression metacharacters:
  \<open>pat\<close> occurs in the string as a contiguous piece. Every pattern the source writes
  (\<open>SQL\<close>, \<open>No Upfront\<close>, \<open>Partial Upfront\<close>, \<open>Unused\<close>, \<open>Linux\<close>) is of that kind.
\<close>

fun str_contains :: "string \<Rightarrow> string \<Rightarrow> bool" where
  "str_contains [] pat = (pat = [])"
| "str_contains (c # cs) pat = (take (length pat) (c # cs) = pat \<or> str_contains cs pat)"

text \<open>\<open>str(n)\<close> of a Python integer, as the f-strings of the source format it.\<close>

definition digit_char :: "nat \<Rightarrow> char" where
  "digit_char d = ''0123456789'' ! d"

fun str_nat :: "nat \<Rightarrow> string" where
  "str_nat n = (if n < 10 then [digit_char n] else str_nat (n div 10) @ [digit_char (n mod 10)])"

declare str_nat.simps [simp del]

definition str_int :: "int \<Rightarrow> string" where
  "str_int i = (if i < 0 then CHR ''-'' # str_nat (nat (- i)) else str_nat (nat i))"

text \<open>
  A cell of a column that \<open>read_csv\<close> left untyped: a missing value, a text or a number.
  \<open>py_int\<close> is Python's \<open>int(cell)\<close>: it raises on a missing value and on a text that is
  not an integer literal (optional surrounding blanks, optional sign, decimal digits with
  single underscores between them); it truncates a number towards zero.
\<close>

datatype cell = NaN | Text string | Number rat

definition is_digit :: "char \<Rightarrow> bool" where
  "is_digit c = (c \<in> set ''0123456789'')"

definition is_space :: "char \<Rightarrow> bool" where
  "is_space c = (c \<in> set [CHR '' '', CHR 0x09, CHR 0x0A, CHR 0x0B, CHR 0x0C, CHR 0x0D,
                            CHR 0x1C, CHR 0x1D, CHR 0x1E, CHR 0x1F])"

definition strip :: "string \<Rightarrow> string" where
  "strip s = rev (dropWhile is_space (rev (dropWhile is_space s)))"

definition digit_val :: "char \<Rightarrow> int" where
  "digit_val c = int (length (takeWhile (\<lambda>d. d \<noteq> c) ''0123456789''))"

fun well_grouped :: "string \<Rightarrow> bool" where
  "well_grouped [] = False"
| "well_grouped [c] = is_digit c"
| "well_grouped (c # d # cs) =
     (if is_digit c then well_grouped (d # cs)
      else c = CHR ''_'' \<and> is_digit d \<and> well_grouped (d # cs))"

definition parse_digits :: "string \<Rightarrow> py_error + int" where
  "parse_digits s =
     (if s \<noteq> [] \<and> is_digit (hd s) \<and> well_grouped s
      then Inr (foldl (\<lambda>acc c. 10 * acc + digit_val c) 0 (filter is_digit s))
      else Inl ValueError)"

definition py_int :: "cell \<Rightarrow> py_error + int" where
  "py_int v =
     (case v of
        NaN \<Rightarrow> Inl ValueError
      | Number q \<Rightarrow> Inr (if q < 0 then - \<lfloor>- q\<rfloor> else \<lfloor>q\<rfloor>)
      | Text s \<Rightarrow>
          (case strip s of
             [] \<Rightarrow> Inl ValueError
           | c # cs \<Rightarrow>
               if c = CHR ''-'' then map_sum id uminus (parse_digits cs)
               else if c = CHR ''+'' then parse_digits cs
               else parse_digits (c # cs)))"

section \<open>The raw price table\<close>

text \<open>
  One row of the table that \<open>read_amazon_ec2_data\<close> returns, with the columns
  \<open>save_amazon_ec2_data\<close> names. Prices are exact rationals: the rounding of the
  floating-point operations is not part of the model. The text columns are strings
  (\<open>read_amazon_ec2_data\<close> fills the missing \<open>Rsv\<close>, \<open>Popt\<close> and \<open>Software\<close>).
\<close>

record PriceRecord =
  Type :: string
  Region :: string
  Price :: rat
  OS :: string
  Unit :: string
  Rsv :: string
  Popt :: string
  Tenancy :: string
  OfferingClass :: string
  Pdesc :: string
  Software :: string
  ECU :: cell

type_synonym price_key = "string \<times> string \<times> string \<times> string"

definition index_keys :: "PriceRecord \<Rightarrow> price_key \<times> string" where
  "index_keys r = ((Region r, Tenancy r, Rsv r, Popt r), Unit r)"

section \<open>\<open>get_amazon_ec2_prices\<close>\<close>

text \<open>Lines 108 to 128: the row filters, in the order of the source.\<close>

definition filter_rows :: "PriceRecord list \<Rightarrow> string \<Rightarrow> string \<Rightarrow> PriceRecord list" where
  "filter_rows amazon_ec2_data instance os =
     (let filtered = filter (\<lambda>r. Type r = instance \<and> str_contains (OS r) os) amazon_ec2_data;
          filtered = filter (\<lambda>r. \<not> str_contains (Software r) ''SQL'') filtered;
          filtered = filter (\<lambda>r. \<not> str_contains (Popt r) ''No Upfront'') filtered;
          filtered = filter (\<lambda>r. \<not> str_contains (Popt r) ''Partial Upfront'') filtered;
          filtered = filter (\<lambda>r. \<not> str_contains (Pdesc r) ''Unused'') filtered;
          filtered = filter (\<lambda>r. \<not> (Price r = 0)) filtered;
          filtered = filter (\<lambda>r. Tenancy r = ''Shared'') filtered;
          filtered = filter (\<lambda>r. OfferingClass r \<noteq> ''convertible'') filtered
      in filtered)"

text \<open>
  Lines 130 to 138: the rows indexed by \<open>Region, Tenancy, Rsv, Popt, Unit\<close>, then
  \<open>unstack(-1).fillna(0)\<close>: one row per \<open>(Region, Tenancy, Rsv, Popt)\<close>, in sorted order,
  and one price column per value of \<open>Unit\<close> that occurs; a cell with no source row is 0.
  \<open>unstack\<close> raises \<open>ValueError\<close> when two rows have the same five index values.
\<close>

record grouped_table =
  columns :: "string list"
  index :: "price_key list"
  cells :: "price_key \<Rightarrow> string \<Rightarrow> rat"

definition unstack :: "PriceRecord list \<Rightarrow> py_error + grouped_table" where
  "unstack filtered =
     (if \<not> distinct (map index_keys filtered) then Inl ValueError
      else Inr \<lparr> columns = sort (remdups (map Unit filtered)),
                 index = sort (remdups (map (fst \<circ> index_keys) filtered)),
                 cells = (\<lambda>k u. case find (\<lambda>r. index_keys r = (k, u)) filtered of
                                   None \<Rightarrow> 0
                                 | Some r \<Rightarrow> Price r) \<rparr>)"

text \<open>Selecting the column \<open>("Price", u)\<close>: \<open>KeyError\<close> when no row had that unit.\<close>

definition price_column :: "grouped_table \<Rightarrow> string \<Rightarrow> py_error + (price_key \<Rightarrow> rat)" where
  "price_column grouped u =
     (if u \<in> set (columns grouped) then Inr (\<lambda>k. cells grouped k u) else Inl KeyError)"

definition rsv_of :: "price_key \<Rightarrow> string" where
  "rsv_of k = fst (snd (snd k))"

text \<open>
  Lines 140 to 164. The three selections by \<open>Rsv\<close> are disjoint, so the outer merges
  put their rows side by side; line 162 sorts them by the four index columns.
\<close>

definition get_amazon_ec2_prices ::
  "PriceRecord list \<Rightarrow> string \<Rightarrow> string \<Rightarrow> py_error + (price_key \<times> rat) list" where
  "get_amazon_ec2_prices amazon_ec2_data instance os =
     (case unstack (filter_rows amazon_ec2_data instance os) of
        Inl e \<Rightarrow> Inl e
      | Inr grouped \<Rightarrow>
          (case price_column grouped ''Hrs'' of
             Inl e \<Rightarrow> Inl e
           | Inr hrs \<Rightarrow>
               (case price_column grouped ''Quantity'' of
                  Inl e \<Rightarrow> Inl e
                | Inr quantity \<Rightarrow>
                    (let yr1 = map (\<lambda>k. (k, hrs k + quantity k / 365 / 24))
                                 (filter (\<lambda>k. rsv_of k = ''1yr'') (index grouped));
                         yr3 = map (\<lambda>k. (k, hrs k + quantity k / 365 / 24 / 3))
                                 (filter (\<lambda>k. rsv_of k = ''3yr'') (index grouped));
                         on_demand = map (\<lambda>k. (k, hrs k))
                                 (filter (\<lambda>k. rsv_of k = ''No'') (index grouped));
                         prices = yr1 @ yr3 @ on_demand
                     in Inr (sort_key fst prices)))))"

section \<open>\<open>get_simplified_amazon_prices\<close>\<close>

text \<open>
  \<open>prices.xs((t, r, p), level=(1,2,3))\<close>: each label is looked up in its own index level,
  which raises \<open>KeyError\<close> when no row carries it; the rows that carry all three are
  kept, indexed by the remaining level, the region.
\<close>

definition xs_level :: "(price_key \<times> rat) list \<Rightarrow> string \<times> string \<times> string
    \<Rightarrow> py_error + (string \<times> rat) list" where
  "xs_level prices key =
     (case key of (t, r, p) \<Rightarrow>
        if t \<notin> set (map (\<lambda>(k, v). fst (snd k)) prices) then Inl KeyError
        else if r \<notin> set (map (\<lambda>(k, v). fst (snd (snd k))) prices) then Inl KeyError
        else if p \<notin> set (map (\<lambda>(k, v). snd (snd (snd k))) prices) then Inl KeyError
        else Inr (map (\<lambda>(k, v). (fst k, v)) (filter (\<lambda>(k, v). snd k = (t, r, p)) prices)))"

text \<open>\<open>to_dict()\<close> and \<open>dict(...)\<close> of a list of pairs: the last pair of a key wins.\<close>

definition dict_of :: "('k \<times> 'v) list \<Rightarrow> ('k \<rightharpoonup> 'v)" where
  "dict_of kvs = map_of (rev kvs)"

record simplified_prices =
  on_demand :: "string \<rightharpoonup> rat"
  reserved :: "string \<rightharpoonup> rat"

definition get_simplified_amazon_prices ::
  "PriceRecord list \<Rightarrow> string \<Rightarrow> string \<Rightarrow> py_error + simplified_prices" where
  "get_simplified_amazon_prices amazon_ec2_data instance os =
     (case get_amazon_ec2_prices amazon_ec2_data instance os of
        Inl e \<Rightarrow> Inl e
      | Inr prices \<Rightarrow>
          (case xs_level prices (''Shared'', ''No'', ''N/A'') of
             Inl e \<Rightarrow> Inl e
           | Inr on_demand_rows \<Rightarrow>
               (case xs_level prices (''Shared'', ''1yr'', ''All Upfront'') of
                  Inl e \<Rightarrow> Inl e
                | Inr reserved_rows \<Rightarrow>
                    Inr \<lparr> on_demand = dict_of on_demand_rows,
                          reserved = dict_of reserved_rows \<rparr>)))"

section \<open>\<open>generate_amazon_region_instances\<close>\<close>

text \<open>
  The fields of malloovia's \<open>LimitingSet\<close> and \<open>InstanceClass\<close> that the source sets.
  An instance class holds references to its limiting sets: a reference is the position
  of the object in the store, the list of all limiting sets built so far, and building
  one appends it. Two references are the same object exactly when they are equal.
\<close>

record LimitingSet =
  id_ls :: string
  name_ls :: string
  max_vms_ls :: int

type_synonym ref = nat

type_synonym store = "LimitingSet list"

record InstanceClass =
  id_ic :: string
  name_ic :: string
  limiting_sets :: "ref list"
  price :: rat
  max_vms :: int
  is_reserved :: bool
  time_unit :: string

record region_datum =
  on_demand_dat :: "rat option"
  reserved_dat :: "rat option"
  max_vms_dat :: int

text \<open>
  Lines 194 to 200. \<open>region_data\<close> is an ordered dictionary: storing under a key that
  is present replaces the value in place, a new key goes to the end.
\<close>

fun fill_region_data :: "PriceRecord list \<Rightarrow> string \<Rightarrow> int \<Rightarrow> string list
    \<Rightarrow> (string \<times> region_datum) list \<Rightarrow> py_error + (string \<times> region_datum) list" where
  "fill_region_data amazon_ec2_data region_name max_inst_per_type [] region_data =
     Inr region_data"
| "fill_region_data amazon_ec2_data region_name max_inst_per_type (instance_name # rest)
     region_data =
     (case get_simplified_amazon_prices amazon_ec2_data instance_name ''Linux'' of
        Inl e \<Rightarrow> Inl e
      | Inr r \<Rightarrow>
          fill_region_data amazon_ec2_data region_name max_inst_per_type rest
            (AList.update instance_name
               \<lparr> on_demand_dat = on_demand r region_name,
                 reserved_dat = reserved r region_name,
                 max_vms_dat = max_inst_per_type \<rparr>
               region_data))"

text \<open>Lines 204 and 205: the limiting set of the region.\<close>

definition region_set :: "string \<Rightarrow> int \<Rightarrow> LimitingSet" where
  "region_set region_name max_inst_per_group =
     \<lparr> id_ls = region_name, name_ls = region_name, max_vms_ls = max_inst_per_group \<rparr>"

text \<open>Lines 209 to 214: the on-demand class of a type, given its price.\<close>

definition on_demand_class :: "string \<Rightarrow> ref \<Rightarrow> string \<Rightarrow> region_datum \<Rightarrow> rat
    \<Rightarrow> InstanceClass" where
  "on_demand_class region_name region i dat p =
     \<lparr> id_ic = i @ ''_'' @ region_name, name_ic = i, limiting_sets = [region],
       price = p, max_vms = max_vms_dat dat, is_reserved = False, time_unit = ''h'' \<rparr>"

text \<open>Lines 206 to 214: one on-demand class per type that has an on-demand price.\<close>

definition on_demand_classes :: "string \<Rightarrow> ref \<Rightarrow> (string \<times> region_datum) list
    \<Rightarrow> InstanceClass list" where
  "on_demand_classes region_name region region_data =
     concat (map (\<lambda>(i, dat).
       case on_demand_dat dat of
         None \<Rightarrow> []
       | Some p \<Rightarrow> [on_demand_class region_name region i dat p]) region_data)"

text \<open>Lines 217 to 221: the limiting sets of the zones \<open>1, \<dots>, availability_zones\<close>.\<close>

definition zone_set :: "string \<Rightarrow> int \<Rightarrow> int \<Rightarrow> LimitingSet" where
  "zone_set region_name max_inst_per_group z =
     \<lparr> id_ls = region_name @ ''_AZ'' @ str_int z,
       name_ls = region_name @ ''_AZ'' @ str_int z,
       max_vms_ls = max_inst_per_group \<rparr>"

definition zone_sets :: "string \<Rightarrow> int \<Rightarrow> int \<Rightarrow> LimitingSet list" where
  "zone_sets region_name max_inst_per_group availability_zones =
     map (zone_set region_name max_inst_per_group) [1..availability_zones]"

text \<open>Lines 226 to 231: the reserved class of a type in a zone, given its price.\<close>

definition reserved_class :: "string \<Rightarrow> ref \<Rightarrow> LimitingSet \<Rightarrow> string \<Rightarrow> rat
    \<Rightarrow> InstanceClass" where
  "reserved_class region_name zone zone_obj i p =
     \<lparr> id_ic = i @ ''_'' @ region_name @ ''_'' @ name_ls zone_obj, name_ic = i,
       limiting_sets = [zone], price = p, max_vms = 0, is_reserved = True,
       time_unit = ''h'' \<rparr>"

text \<open>Lines 222 to 231: one reserved class per type with a reserved price and per zone.\<close>

definition reserved_classes :: "string \<Rightarrow> (ref \<times> LimitingSet) list
    \<Rightarrow> (string \<times> region_datum) list \<Rightarrow> InstanceClass list" where
  "reserved_classes region_name zones region_data =
     concat (map (\<lambda>(i, dat).
       concat (map (\<lambda>(zone, zone_obj).
         case reserved_dat dat of
           None \<Rightarrow> []
         | Some p \<Rightarrow> [reserved_class region_name zone zone_obj i p]) zones)) region_data)"

text \<open>
  The whole function. It takes the store of the limiting sets that exist before the
  call and returns the store after it with the list of instance classes.
\<close>

definition generate_amazon_region_instances ::
  "store \<Rightarrow> PriceRecord list \<Rightarrow> string \<Rightarrow> int \<Rightarrow> int \<Rightarrow> int \<Rightarrow> string list
    \<Rightarrow> py_error + (store \<times> InstanceClass list)" where
  "generate_amazon_region_instances heap amazon_ec2_data region_name max_inst_per_type
     max_inst_per_group availability_zones instance_names =
     (case fill_region_data amazon_ec2_data region_name max_inst_per_type
             (sort instance_names) [] of
        Inl e \<Rightarrow> Inl e
      | Inr region_data \<Rightarrow>
          (let region = length heap;
               heap1 = heap @ [region_set region_name max_inst_per_group];
               ins = on_demand_classes region_name region region_data;
               zone_objs = zone_sets region_name max_inst_per_group availability_zones;
               zones = zip [length heap1 ..< length heap1 + length zone_objs] zone_objs;
               heap2 = heap1 @ zone_objs;
               ins = ins @ reserved_classes region_name zones region_data
           in Inr (heap2, ins)))"

section \<open>\<open>get_perfs\<close>\<close>

record App =
  id_app :: string
  name_app :: string

text \<open>
  Line 68: the \<open>ECU\<close> cell of the first row of the type, as an integer. \<open>iloc[0]\<close>
  raises \<open>IndexError\<close> when the table has no row of that type.
\<close>

definition lookup_ecus :: "PriceRecord list \<Rightarrow> string \<Rightarrow> py_error + int" where
  "lookup_ecus amazon_ec2_data name =
     (case filter (\<lambda>r. Type r = name) amazon_ec2_data of
        [] \<Rightarrow> Inl IndexError
      | r # _ \<Rightarrow> py_int (ECU r))"

text \<open>Lines 67 to 70: the bare \<open>except\<close> replaces every failure by \<open>priv_ecus\<close>.\<close>

definition ecus_of :: "PriceRecord list \<Rightarrow> InstanceClass \<Rightarrow> int \<Rightarrow> int" where
  "ecus_of amazon_ec2_data ic priv_ecus =
     (case lookup_ecus amazon_ec2_data (name_ic ic) of
        Inl e \<Rightarrow> priv_ecus
      | Inr ecus \<Rightarrow> ecus)"

text \<open>Lines 65 to 74: the dictionary \<open>perf_dict\<close>, filled class by class.\<close>

fun fill_perf_dict :: "PriceRecord list \<Rightarrow> InstanceClass list \<Rightarrow> App list \<Rightarrow> int
    \<Rightarrow> int list \<Rightarrow> int \<Rightarrow> (InstanceClass \<rightharpoonup> (App \<rightharpoonup> int))
    \<Rightarrow> (InstanceClass \<rightharpoonup> (App \<rightharpoonup> int))" where
  "fill_perf_dict amazon_ec2_data [] apps perf_factor perfs_per_ecu priv_ecus perf_dict =
     perf_dict"
| "fill_perf_dict amazon_ec2_data (ic # ics) apps perf_factor perfs_per_ecu priv_ecus
     perf_dict =
     (let ecus = ecus_of amazon_ec2_data ic priv_ecus
      in fill_perf_dict amazon_ec2_data ics apps perf_factor perfs_per_ecu priv_ecus
           (perf_dict(ic \<mapsto>
              dict_of (map (\<lambda>(app, perf). (app, perf * ecus * perf_factor))
                         (zip apps perfs_per_ecu)))))"

definition get_perfs :: "PriceRecord list \<Rightarrow> InstanceClass list \<Rightarrow> App list \<Rightarrow> int
    \<Rightarrow> int list \<Rightarrow> int \<Rightarrow> (InstanceClass \<rightharpoonup> (App \<rightharpoonup> int))" where
  "get_perfs amazon_ec2_data ics apps perf_factor perfs_per_ecu priv_ecus =
     fill_perf_dict amazon_ec2_data ics apps perf_factor perfs_per_ecu priv_ecus Map.empty"

section \<open>\<open>get_quanta\<close>\<close>

text \<open>
  \<open>reduce(math.gcd, l)\<close> without an initial value: \<open>TypeError\<close> on the empty list, the
  only element itself on a list of one, the folded \<open>math.gcd\<close> otherwise.
\<close>

fun reduce_gcd :: "int list \<Rightarrow> py_error + int" where
  "reduce_gcd [] = Inl TypeError"
| "reduce_gcd (p # l) = Inr (foldl gcd p l)"

text \<open>Lines 120 to 123: the loop stops at the first list that makes \<open>reduce\<close> raise.\<close>

fun gcd_loop :: "int list list \<Rightarrow> py_error + int list" where
  "gcd_loop [] = Inr []"
| "gcd_loop (l # perf_list) =
     (case reduce_gcd l of
        Inl e \<Rightarrow> Inl e
      | Inr g \<Rightarrow>
          (case gcd_loop perf_list of
             Inl e \<Rightarrow> Inl e
           | Inr quanta \<Rightarrow> Inr (g # quanta)))"

definition get_quanta :: "int list list \<Rightarrow> int \<Rightarrow> py_error + int list" where
  "get_quanta perf_list quant_factor =
     (case gcd_loop perf_list of
        Inl e \<Rightarrow> Inl e
      | Inr quanta \<Rightarrow> Inr (map (\<lambda>q. q * quant_factor) quanta))"

section \<open>\<open>discretize_levels\<close>\<close>

text \<open>\<open>max(workload)\<close>: \<open>ValueError\<close> on an empty sequence.\<close>

definition py_max :: "int list \<Rightarrow> py_error + int" where
  "py_max workload = (case workload of [] \<Rightarrow> Inl ValueError | v # vs \<Rightarrow> Inr (foldl max v vs))"

text \<open>\<open>list(range(0, stop, step))\<close>: \<open>ValueError\<close> when the step is zero.\<close>

definition py_range0 :: "int \<Rightarrow> int \<Rightarrow> py_error + int list" where
  "py_range0 stop step =
     (if step = 0 then Inl ValueError
      else if 0 < step
        then Inr (map (\<lambda>k. int k * step) [0 ..< nat ((stop + step - 1) div step)])
        else Inr (map (\<lambda>k. int k * step) [0 ..< nat ((- stop - step - 1) div (- step))]))"

text \<open>
  \<open>np.digitize(x, bins, right=True)\<close> for one value: on increasing bins the number of
  bins below \<open>x\<close>, on decreasing bins the number of bins not below \<open>x\<close>; \<open>ValueError\<close>
  when the bins are neither. \<open>np.take\<close> raises \<open>IndexError\<close> past the end.
\<close>

definition digitize :: "int \<Rightarrow> int list \<Rightarrow> py_error + nat" where
  "digitize x bins =
     (if sorted bins then Inr (length (filter (\<lambda>b. b < x) bins))
      else if sorted (rev bins) then Inr (length bins - length (filter (\<lambda>b. b < x) bins))
      else Inl ValueError)"

definition take_np :: "int list \<Rightarrow> nat \<Rightarrow> py_error + int" where
  "take_np levels i = (if i < length levels then Inr (levels ! i) else Inl IndexError)"

text \<open>A list of results is a result: the first error, or all the values.\<close>

fun sequence :: "(py_error + 'a) list \<Rightarrow> py_error + 'a list" where
  "sequence [] = Inr []"
| "sequence (r # rs) =
     (case r of
        Inl e \<Rightarrow> Inl e
      | Inr v \<Rightarrow> (case sequence rs of Inl e \<Rightarrow> Inl e | Inr vs \<Rightarrow> Inr (v # vs)))"

text \<open>Lines 132 and 133, the body of the loop for one workload and its quantum.\<close>

definition discretize_one :: "int list \<Rightarrow> int \<Rightarrow> py_error + int list" where
  "discretize_one workload quantum =
     (case py_max workload of
        Inl e \<Rightarrow> Inl e
      | Inr m \<Rightarrow>
          (case py_range0 (m + quantum) quantum of
             Inl e \<Rightarrow> Inl e
           | Inr levels \<Rightarrow>
               sequence (map (\<lambda>x. case digitize x levels of
                                     Inl e \<Rightarrow> Inl e
                                   | Inr i \<Rightarrow> take_np levels i) workload)))"

text \<open>
  The whole function. \<open>np.array(quantized)\<close> needs rows of one length: current NumPy
  raises \<open>ValueError\<close> on a ragged list (older versions built an array of arrays).
\<close>

definition discretize_levels :: "int list list \<Rightarrow> int list \<Rightarrow> py_error + int list list" where
  "discretize_levels workloads quanta =
     (if length workloads \<noteq> length quanta then Inl AssertionError
      else
        (case sequence (map (\<lambda>(workload, quantum). discretize_one workload quantum)
                          (zip workloads quanta)) of
           Inl e \<Rightarrow> Inl e
         | Inr quantized \<Rightarrow>
             if \<exists>a \<in> set quantized. \<exists>b \<in> set quantized. length a \<noteq> length b
             then Inl ValueError
             else Inr quantized))"

section \<open>The workloads of \<open>solve_problem\<close>\<close>

text \<open>
  Lines 208 to 212: \<open>wls\<close> after the selection of lines 204 to 206, the quanta of line
  193, the quantization factor and \<open>factor_repeat\<close>. A list times a number that is not
  positive is the empty list.
\<close>

definition quantize_workloads :: "int list list \<Rightarrow> int list \<Rightarrow> int \<Rightarrow> int
    \<Rightarrow> py_error + int list list" where
  "quantize_workloads wls quanta quant_factor factor_repeat =
     (if quant_factor \<noteq> 0
      then (case discretize_levels wls quanta of
              Inl e \<Rightarrow> Inl e
            | Inr quantized \<Rightarrow> Inr (concat (replicate (nat factor_repeat) quantized)))
      else Inr (concat (replicate (nat factor_repeat) wls)))"

text \<open>Lines 214 to 224: the workload of each application, \<open>zip(apps, wls)\<close>.\<close>

definition ltwp :: "App list \<Rightarrow> int list list \<Rightarrow> (App \<times> int list) list" where
  "ltwp apps wls = zip apps wls"

section \<open>Notions of the specification\<close>

text \<open>
  The rows the specification excludes from every price: a software bundle with \<open>SQL\<close>, a
  purchase option with \<open>No Upfront\<close> or \<open>Partial Upfront\<close>, a description with
  \<open>Unused\<close>, a zero price, a tenancy other than \<open>Shared\<close>, the offering class
  \<open>convertible\<close>.
\<close>

definition excluded :: "PriceRecord \<Rightarrow> bool" where
  "excluded r \<longleftrightarrow>
     str_contains (Software r) ''SQL'' \<or> str_contains (Popt r) ''No Upfront'' \<or>
     str_contains (Popt r) ''Partial Upfront'' \<or> str_contains (Pdesc r) ''Unused'' \<or>
     Price r = 0 \<or> Tenancy r \<noteq> ''Shared'' \<or> OfferingClass r = ''convertible''"



section \<open>Example data\<close>

text \<open>Rows and tables for the examples.\<close>

definition offer :: "string \<Rightarrow> rat \<Rightarrow> string \<Rightarrow> string \<Rightarrow> string \<Rightarrow> string \<Rightarrow> PriceRecord" where
  "offer region_name p unit_name rsv popt software =
     \<lparr> Type = ''c5.large'', Region = region_name, Price = p, OS = ''Linux'', Unit = unit_name,
       Rsv = rsv, Popt = popt, Tenancy = ''Shared'', OfferingClass = ''standard'',
       Pdesc = ''c5.large instance'', Software = software, ECU = Text ''9'' \<rparr>"

definition reserved_and_on_demand :: "PriceRecord list" where
  "reserved_and_on_demand =
     [offer ''eu'' 8760 ''Quantity'' ''1yr'' ''All Upfront'' ''NA'',
      offer ''eu'' (1 / 10) ''Hrs'' ''No'' ''N/A'' ''NA'',
      offer ''eu'' 26280 ''Quantity'' ''3yr'' ''All Upfront'' ''NA'',
      offer ''eu'' (1 / 2) ''Hrs'' ''3yr'' ''All Upfront'' ''NA'']"

definition with_excluded_rows :: "PriceRecord list" where
  "with_excluded_rows =
     [offer ''eu'' 8760 ''Quantity'' ''1yr'' ''All Upfront'' ''NA'',
      offer ''eu'' 5 ''Hrs'' ''No'' ''N/A'' ''SQL Std'',
      offer ''eu'' 3 ''Hrs'' ''1yr'' ''No Upfront'' ''NA'',
      offer ''eu'' 2 ''Hrs'' ''1yr'' ''Partial Upfront'' ''NA'',
      (offer ''eu'' 7 ''Hrs'' ''No'' ''N/A'' ''NA'') \<lparr> Pdesc := ''Unused reservation'' \<rparr>,
      offer ''eu'' (1 / 10) ''Hrs'' ''No'' ''N/A'' ''NA'',
      offer ''eu'' 0 ''Hrs'' ''1yr'' ''All Upfront'' ''NA'',
      (offer ''eu'' 9 ''Hrs'' ''No'' ''N/A'' ''NA'') \<lparr> Tenancy := ''Dedicated'' \<rparr>,
      offer ''eu'' 26280 ''Quantity'' ''3yr'' ''All Upfront'' ''NA'',
      (offer ''eu'' 4 ''Hrs'' ''3yr'' ''All Upfront'' ''NA'') \<lparr> OfferingClass := ''convertible'' \<rparr>,
      offer ''eu'' (1 / 2) ''Hrs'' ''3yr'' ''All Upfront'' ''NA'']"

text \<open>
  The offers of an instance type in a region: an on-demand price per hour and the price
  of a one-year reservation paid upfront.
\<close>

definition full_offer :: "string \<Rightarrow> string \<Rightarrow> PriceRecord list" where
  "full_offer instance region_name =
     [(offer region_name (1 / 10) ''Hrs'' ''No'' ''N/A'' ''NA'') \<lparr> Type := instance \<rparr>,
      (offer region_name 438 ''Quantity'' ''1yr'' ''All Upfront'' ''NA'')
        \<lparr> Type := instance \<rparr>]"

definition catalog_table :: "PriceRecord list" where
  "catalog_table =
     full_offer ''c5.large'' ''eu-1'' @ full_offer ''c5.xlarge'' ''eu-1'' @
     full_offer ''c5.2xlarge'' ''us-1''"


text \<open>The prices of a type that is offered both ways in the example tables.\<close>

definition priced :: region_datum where
  "priced = \<lparr> on_demand_dat = Some (1 / 10), reserved_dat = Some (1 / 20), max_vms_dat = 7 \<rparr>"

text \<open>
  A price table whose only type has the compute-unit cell \<open>Variable\<close>, an instance
  class of that type, the instance class of the private cloud, and an application.
\<close>

definition variable_ecu_table :: "PriceRecord list" where
  "variable_ecu_table =
     [(offer ''eu-1'' (1 / 10) ''Hrs'' ''No'' ''N/A'' ''NA'') \<lparr> ECU := Text ''Variable'' \<rparr>]"

definition c5_class :: InstanceClass where
  "c5_class = on_demand_class ''eu-1'' 0 ''c5.large'' priced (1 / 10)"

definition priv_class :: InstanceClass where
  "priv_class =
     \<lparr> id_ic = ''priv'', name_ic = ''priv'', limiting_sets = [], price = 1 / 2, max_vms = 10,
       is_reserved = True, time_unit = ''h'' \<rparr>"

definition app0 :: App where
  "app0 = \<lparr> id_app = ''a0'', name_app = ''0'' \<rparr>"

section \<open>Failures of the quantization\<close>

lemma gcd_loop_empty: "[] \<in> set perf_list \<Longrightarrow> gcd_loop perf_list = Inl TypeError"
proof (induction perf_list)
  case Nil
  then show ?case by simp
next
  case (Cons l perf_list)
  show ?case
  proof (cases l)
    case Nil
    then show ?thesis by simp
  next
    case (Cons p ps)
    with Cons.prems have "[] \<in> set perf_list" by auto
    with Cons.IH have "gcd_loop perf_list = Inl TypeError" by simp
    with Cons show ?thesis by simp
  qed
qed

text \<open>
  Claim C9. When the number of quanta differs from the number of demand series,
  \<open>discretize_levels\<close> raises \<open>AssertionError\<close>, and so does the quantization step of
  \<open>solve_problem\<close> that calls it; when the performance list of an application is empty,
  \<open>get_quanta\<close> raises \<open>TypeError\<close>. In each case the result is the exception alone: no
  quantized series and no quantum is returned.
\<close>

theorem quantization_aborts:
  "(length workloads \<noteq> length quanta \<longrightarrow>
      discretize_levels workloads quanta = Inl AssertionError) \<and>
   (quant_factor \<noteq> 0 \<and> length workloads \<noteq> length quanta \<longrightarrow>
      quantize_workloads workloads quanta quant_factor factor_repeat = Inl AssertionError) \<and>
   ([] \<in> set perf_list \<longrightarrow> get_quanta perf_list quant_factor = Inl TypeError)"
  by (simp add: discretize_levels_def quantize_workloads_def get_quanta_def gcd_loop_empty)

theorem quantization_aborts_witness:
  "length [[1, 2], [3::int]] \<noteq> length [5::int] \<and>
   discretize_levels [[1, 2], [3]] [5] = Inl AssertionError \<and>
   (2::int) \<noteq> 0 \<and>
   quantize_workloads [[1, 2], [3]] [5] 2 1 = Inl AssertionError \<and>
   [] \<in> set [[1000, 500], [] :: int list] \<and>
   get_quanta [[1000, 500], []] 2 = Inl TypeError"
  using quantization_aborts [of "[[1, 2], [3]]" "[5]" 2 1 "[[1000, 500], []]"]
  by simp

section \<open>The quantum of an application\<close>

lemma foldl_gcd: "foldl gcd p l = (if l = [] then p else Gcd (set (p # l)))" for p :: int
proof (induction l arbitrary: p)
  case Nil
  then show ?case by simp
next
  case (Cons x xs)
  show ?case
  proof (cases xs)
    case Nil
    then show ?thesis by simp
  next
    case (Cons y ys)
    then have "foldl gcd (gcd p x) xs = Gcd (set (gcd p x # xs))"
      using Cons.IH [of "gcd p x"] by simp
    then show ?thesis by (simp add: gcd.assoc)
  qed
qed

lemma reduce_gcd_abs: "reduce_gcd l = Inr g \<Longrightarrow> \<bar>g\<bar> = Gcd (set l)"
  by (cases l) (auto simp: foldl_gcd split: if_splits)

lemma reduce_gcd_exact:
  "reduce_gcd l = Inr g \<Longrightarrow> 0 \<le> hd l \<or> 2 \<le> length l \<Longrightarrow> g = Gcd (set l)"
  by (cases l) (auto simp: foldl_gcd split: if_splits)

lemma gcd_loop_total:
  "\<forall>l \<in> set perf_list. l \<noteq> [] \<Longrightarrow>
   \<exists>gs. gcd_loop perf_list = Inr gs \<and> length gs = length perf_list \<and>
     (\<forall>i < length perf_list. reduce_gcd (perf_list ! i) = Inr (gs ! i))"
proof (induction perf_list)
  case Nil
  then show ?case by simp
next
  case (Cons l perf_list)
  then obtain gs where gs: "gcd_loop perf_list = Inr gs" "length gs = length perf_list"
    "\<forall>i < length perf_list. reduce_gcd (perf_list ! i) = Inr (gs ! i)" by auto
  from Cons.prems obtain p ps where l: "l = p # ps" by (cases l) auto
  have "gcd_loop (l # perf_list) = Inr (foldl gcd p ps # gs)" using gs l by simp
  moreover have "\<forall>i < length (l # perf_list).
      reduce_gcd ((l # perf_list) ! i) = Inr ((foldl gcd p ps # gs) ! i)"
    using gs l by (auto simp: nth_Cons split: nat.splits)
  ultimately show ?case using gs by auto
qed

text \<open>
  Claim C6, amended. When every application has a performance value, \<open>get_quanta\<close>
  returns one quantum per application. The quantum is the greatest common divisor of
  the performance values of the application times the quantization factor: always up to
  sign, and exactly when the first value is not negative or there are two values or
  more. The greatest common divisor divides every performance value and the quantum
  divides every performance value times the factor; the quantum itself divides every
  performance value when the factor is 1 or -1.
\<close>

theorem get_quanta_gcd:
  assumes "\<forall>l \<in> set perf_list. l \<noteq> []"
  shows "\<exists>quanta. get_quanta perf_list quant_factor = Inr quanta \<and>
     length quanta = length perf_list \<and>
     (\<forall>i < length perf_list.
        \<bar>quanta ! i\<bar> = Gcd (set (perf_list ! i)) * \<bar>quant_factor\<bar> \<and>
        (0 \<le> hd (perf_list ! i) \<or> 2 \<le> length (perf_list ! i) \<longrightarrow>
           quanta ! i = Gcd (set (perf_list ! i)) * quant_factor) \<and>
        (\<forall>p \<in> set (perf_list ! i).
           Gcd (set (perf_list ! i)) dvd p \<and> quanta ! i dvd p * quant_factor \<and>
           (\<bar>quant_factor\<bar> = 1 \<longrightarrow> quanta ! i dvd p)))"
proof -
  from gcd_loop_total [OF assms] obtain gs where gs: "gcd_loop perf_list = Inr gs"
    "length gs = length perf_list"
    "\<forall>i < length perf_list. reduce_gcd (perf_list ! i) = Inr (gs ! i)" by auto
  let ?quanta = "map (\<lambda>q. q * quant_factor) gs"
  have res: "get_quanta perf_list quant_factor = Inr ?quanta"
    using gs by (simp add: get_quanta_def)
  have "\<bar>?quanta ! i\<bar> = Gcd (set (perf_list ! i)) * \<bar>quant_factor\<bar> \<and>
        (0 \<le> hd (perf_list ! i) \<or> 2 \<le> length (perf_list ! i) \<longrightarrow>
           ?quanta ! i = Gcd (set (perf_list ! i)) * quant_factor) \<and>
        (\<forall>p \<in> set (perf_list ! i).
           Gcd (set (perf_list ! i)) dvd p \<and> ?quanta ! i dvd p * quant_factor \<and>
           (\<bar>quant_factor\<bar> = 1 \<longrightarrow> ?quanta ! i dvd p))"
    if i: "i < length perf_list" for i
  proof -
    let ?l = "perf_list ! i"
    have r: "reduce_gcd ?l = Inr (gs ! i)" using gs i by simp
    have q: "?quanta ! i = gs ! i * quant_factor" using gs i by simp
    have a: "\<bar>gs ! i\<bar> = Gcd (set ?l)" using reduce_gcd_abs [OF r] .
    have "\<bar>?quanta ! i\<bar> = Gcd (set ?l) * \<bar>quant_factor\<bar>"
      using a q by (simp add: abs_mult)
    moreover have "0 \<le> hd ?l \<or> 2 \<le> length ?l \<longrightarrow> ?quanta ! i = Gcd (set ?l) * quant_factor"
      using reduce_gcd_exact [OF r] q by auto
    moreover have "Gcd (set ?l) dvd p \<and> ?quanta ! i dvd p * quant_factor \<and>
        (\<bar>quant_factor\<bar> = 1 \<longrightarrow> ?quanta ! i dvd p)" if p: "p \<in> set ?l" for p
    proof -
      have d: "Gcd (set ?l) dvd p" using p by (rule Gcd_dvd)
      then have g: "gs ! i dvd p" using a by (metis abs_dvd_iff)
      then have "?quanta ! i dvd p * quant_factor" using q by (simp add: mult_dvd_mono)
      moreover have "?quanta ! i dvd p" if "\<bar>quant_factor\<bar> = 1"
      proof -
        from that have "quant_factor = 1 \<or> quant_factor = - 1" by linarith
        then show ?thesis using g q by auto
      qed
      ultimately show ?thesis using d by blast
    qed
    ultimately show ?thesis by blast
  qed
  with res gs show ?thesis by (intro exI [of _ ?quanta]) simp
qed

theorem get_quanta_gcd_witness:
  "[1000, 500, 2000 :: int] \<noteq> [] \<and>
   get_quanta [[1000, 500, 2000]] 1 = Inr [500] \<and>
   (500::int) = Gcd (set [1000, 500, 2000]) * 1"
  using get_quanta_gcd [of "[[1000, 500, 2000]]" 1]
  by (auto simp: get_quanta_def)

text \<open>
  Claim C6 as stated fails: with the factor 2 the quantum of the performances 1000, 500
  and 2000 is 1000, which does not divide 500.
\<close>

theorem get_quanta_dvd_counterexample:
  "get_quanta [[1000, 500, 2000]] 2 = Inr [1000] \<and> \<not> (1000::int) dvd 500"
  by (simp add: get_quanta_def)

section \<open>Discretization\<close>













section \<open>A quantization factor of zero\<close>

lemma concat_replicate_pos: "0 < n \<Longrightarrow> \<exists>rest. concat (replicate n wls) = wls @ rest"
  by (cases n) simp_all

text \<open>
  Claim C8. With the quantization factor zero, the quantization step of \<open>solve_problem\<close>
  returns the demand series as they are, whatever the quanta: \<open>discretize_levels\<close> is
  not called, so its failures cannot occur. Here \<open>factor_repeat\<close> is positive, as it is
  when there is an application, and there is a series for each application; then every
  application gets its own raw series as its workload.
\<close>

theorem quant_factor_zero_identity:
  assumes "0 < factor_repeat" and "length apps \<le> length wls"
  shows "\<exists>out. quantize_workloads wls quanta 0 factor_repeat = Inr out \<and>
     (\<forall>i < length wls. out ! i = wls ! i) \<and>
     ltwp apps out = ltwp apps wls \<and>
     (\<forall>i < length apps. ltwp apps out ! i = (apps ! i, wls ! i))"
proof -
  let ?out = "concat (replicate (nat factor_repeat) wls)"
  from assms(1) obtain rest where rest: "?out = wls @ rest"
    using concat_replicate_pos [of "nat factor_repeat" wls] by auto
  have "quantize_workloads wls quanta 0 factor_repeat = Inr ?out"
    by (simp add: quantize_workloads_def)
  moreover have "\<forall>i < length wls. ?out ! i = wls ! i"
    by (simp add: rest nth_append)
  moreover have z: "ltwp apps ?out = ltwp apps wls"
    using assms(2) by (simp add: ltwp_def rest zip_append2)
  moreover have "\<forall>i < length apps. ltwp apps ?out ! i = (apps ! i, wls ! i)"
    using assms(2) by (simp add: z) (simp add: ltwp_def)
  ultimately show ?thesis by blast
qed

theorem quant_factor_zero_identity_witness:
  "(0::int) < 2 \<and>
   length [\<lparr>id_app = ''a0'', name_app = ''0''\<rparr>] \<le> length [[0, 499, 500, 501 :: int]] \<and>
   quantize_workloads [[0, 499, 500, 501]] [] 0 2 =
     Inr [[0, 499, 500, 501], [0, 499, 500, 501]] \<and>
   discretize_levels [[0, 499, 500, 501]] [] = Inl AssertionError \<and>
   ltwp [\<lparr>id_app = ''a0'', name_app = ''0''\<rparr>] [[0, 499, 500, 501], [0, 499, 500, 501]] =
     ltwp [\<lparr>id_app = ''a0'', name_app = ''0''\<rparr>] [[0, 499, 500, 501]]"
  using quant_factor_zero_identity [of 2 "[\<lparr>id_app = ''a0'', name_app = ''0''\<rparr>]"
      "[[0, 499, 500, 501]]" "[]"]
  by (auto simp: quantize_workloads_def discretize_levels_def ltwp_def eval_nat_numeral)

section \<open>The default number of compute units\<close>

lemma fill_perf_dict_lookup:
  "fill_perf_dict amazon_ec2_data ics apps perf_factor perfs_per_ecu priv_ecus perf_dict ic =
     (if ic \<in> set ics
      then Some (dict_of (map (\<lambda>(app, perf).
                   (app, perf * ecus_of amazon_ec2_data ic priv_ecus * perf_factor))
                 (zip apps perfs_per_ecu)))
      else perf_dict ic)"
  by (induction ics arbitrary: perf_dict) (auto simp: Let_def)

lemma dict_of_distinct:
  assumes "distinct (map fst kvs)" and "(k, v) \<in> set kvs"
  shows "dict_of kvs k = Some v"
proof -
  have "distinct (map fst (rev kvs))" using assms(1) by (simp add: rev_map [symmetric])
  moreover have "(k, v) \<in> set (rev kvs)" using assms(2) by simp
  ultimately show ?thesis unfolding dict_of_def by (rule map_of_is_SomeI)
qed

text \<open>
  Claim C10. For an instance class whose type has no row in the price table, or whose
  first row has an \<open>ECU\<close> cell that \<open>int\<close> rejects, \<open>get_perfs\<close> does not fail: the class
  has an entry in the result, and when the applications are distinct the performance of
  each application is its performance per compute unit times \<open>priv_ecus\<close> times the
  performance factor.
\<close>

theorem get_perfs_default:
  assumes ic: "ic \<in> set ics"
    and fail: "name_ic ic \<notin> Type ` set amazon_ec2_data \<or>
       (\<exists>e. py_int (ECU (hd (filter (\<lambda>r. Type r = name_ic ic) amazon_ec2_data))) = Inl e)"
  shows "\<exists>perfs. get_perfs amazon_ec2_data ics apps perf_factor perfs_per_ecu priv_ecus ic =
       Some perfs \<and>
     (distinct apps \<longrightarrow>
        (\<forall>j. j < length apps \<and> j < length perfs_per_ecu \<longrightarrow>
           perfs (apps ! j) = Some (perfs_per_ecu ! j * priv_ecus * perf_factor)))"
proof -
  have "\<exists>e. lookup_ecus amazon_ec2_data (name_ic ic) = Inl e"
  proof (cases "filter (\<lambda>r. Type r = name_ic ic) amazon_ec2_data")
    case Nil
    then show ?thesis by (simp add: lookup_ecus_def)
  next
    case (Cons r rs)
    then have "r \<in> set (filter (\<lambda>r. Type r = name_ic ic) amazon_ec2_data)" by simp
    then have "r \<in> set amazon_ec2_data" "Type r = name_ic ic" by auto
    then have "name_ic ic \<in> Type ` set amazon_ec2_data" by (metis imageI)
    with fail Cons show ?thesis by (auto simp: lookup_ecus_def)
  qed
  then have ecus: "ecus_of amazon_ec2_data ic priv_ecus = priv_ecus"
    by (auto simp: ecus_of_def)
  let ?kvs = "map (\<lambda>(app, perf). (app, perf * priv_ecus * perf_factor)) (zip apps perfs_per_ecu)"
  have res: "get_perfs amazon_ec2_data ics apps perf_factor perfs_per_ecu priv_ecus ic =
      Some (dict_of ?kvs)"
    using ic by (simp add: get_perfs_def fill_perf_dict_lookup ecus)
  have "dict_of ?kvs (apps ! j) = Some (perfs_per_ecu ! j * priv_ecus * perf_factor)"
    if d: "distinct apps" and j: "j < length apps" "j < length perfs_per_ecu" for j
  proof (rule dict_of_distinct)
    have "map fst ?kvs = map fst (zip apps perfs_per_ecu)" by (simp add: comp_def case_prod_beta)
    also have "\<dots> = take (min (length apps) (length perfs_per_ecu)) apps"
      by (simp add: map_fst_zip_take)
    finally show "distinct (map fst ?kvs)" using d by simp
    have "(apps ! j, perfs_per_ecu ! j) \<in> set (zip apps perfs_per_ecu)"
      using j by (auto simp: set_zip)
    then show "(apps ! j, perfs_per_ecu ! j * priv_ecus * perf_factor) \<in> set ?kvs"
      by force
  qed
  with res show ?thesis by blast
qed


theorem get_perfs_default_witness:
  "priv_class \<in> set [c5_class, priv_class] \<and>
   name_ic priv_class \<notin> Type ` set variable_ecu_table \<and>
   c5_class \<in> set [c5_class, priv_class] \<and>
   py_int (ECU (hd (filter (\<lambda>r. Type r = name_ic c5_class) variable_ecu_table))) =
     Inl ValueError \<and>
   distinct [app0] \<and>
   (\<exists>perfs. get_perfs variable_ecu_table [c5_class, priv_class] [app0] 3 [1000] 7 priv_class =
        Some perfs \<and> perfs app0 = Some (1000 * 7 * 3)) \<and>
   (\<exists>perfs. get_perfs variable_ecu_table [c5_class, priv_class] [app0] 3 [1000] 7 c5_class =
        Some perfs \<and> perfs app0 = Some (1000 * 7 * 3))"
proof -
  have m: "priv_class \<in> set [c5_class, priv_class]" "c5_class \<in> set [c5_class, priv_class]"
    by simp_all
  have a: "name_ic priv_class \<notin> Type ` set variable_ecu_table" by code_simp
  have v: "py_int (ECU (hd (filter (\<lambda>r. Type r = name_ic c5_class) variable_ecu_table))) =
     Inl ValueError" by code_simp
  have d: "distinct [app0]" by simp
  from a have fa: "name_ic priv_class \<notin> Type ` set variable_ecu_table \<or>
       (\<exists>e. py_int (ECU (hd (filter (\<lambda>r. Type r = name_ic priv_class)
          variable_ecu_table))) = Inl e)" by blast
  from v have fv: "name_ic c5_class \<notin> Type ` set variable_ecu_table \<or>
       (\<exists>e. py_int (ECU (hd (filter (\<lambda>r. Type r = name_ic c5_class)
          variable_ecu_table))) = Inl e)" by blast
  from get_perfs_default [OF m(1) fa, of "[app0]" 3 "[1000]" 7] d
  have 1: "\<exists>perfs. get_perfs variable_ecu_table [c5_class, priv_class] [app0] 3 [1000] 7
      priv_class = Some perfs \<and> perfs app0 = Some (1000 * 7 * 3)" by force
  from get_perfs_default [OF m(2) fv, of "[app0]" 3 "[1000]" 7] d
  have 2: "\<exists>perfs. get_perfs variable_ecu_table [c5_class, priv_class] [app0] 3 [1000] 7
      c5_class = Some perfs \<and> perfs app0 = Some (1000 * 7 * 3)" by force
  from m a v d 1 2 show ?thesis by blast
qed

section \<open>The price normalizer\<close>

lemma filter_rows_excluded:
  "filter_rows amazon_ec2_data instance os =
     filter (\<lambda>r. Type r = instance \<and> str_contains (OS r) os)
       (filter (\<lambda>r. \<not> excluded r) amazon_ec2_data)"
  unfolding filter_rows_def Let_def excluded_def filter_filter
  by (rule filter_cong) auto

text \<open>
  Claim C2. The prices depend on the rows that are not excluded only: two price tables
  with the same rows left once the excluded rows are removed give the same result of
  \<open>get_amazon_ec2_prices\<close> and of \<open>get_simplified_amazon_prices\<close>, for every instance
  type and operating system; and no excluded row is among the rows that are grouped.
\<close>

theorem excluded_rows_do_not_contribute:
  assumes "filter (\<lambda>r. \<not> excluded r) table1 = filter (\<lambda>r. \<not> excluded r) table2"
  shows "get_amazon_ec2_prices table1 instance os = get_amazon_ec2_prices table2 instance os \<and>
     get_simplified_amazon_prices table1 instance os =
       get_simplified_amazon_prices table2 instance os \<and>
     (\<forall>r \<in> set (filter_rows table1 instance os). \<not> excluded r)"
proof -
  have "filter_rows table1 instance os = filter_rows table2 instance os"
    using assms by (simp only: filter_rows_excluded)
  then have "get_amazon_ec2_prices table1 instance os = get_amazon_ec2_prices table2 instance os"
    by (simp only: get_amazon_ec2_prices_def)
  moreover from this have "get_simplified_amazon_prices table1 instance os =
       get_simplified_amazon_prices table2 instance os"
    by (simp only: get_simplified_amazon_prices_def)
  moreover have "\<forall>r \<in> set (filter_rows table1 instance os). \<not> excluded r"
    by (simp add: filter_rows_excluded)
  ultimately show ?thesis by blast
qed

theorem excluded_rows_do_not_contribute_witness:
  "filter (\<lambda>r. \<not> excluded r) with_excluded_rows =
     filter (\<lambda>r. \<not> excluded r) reserved_and_on_demand \<and>
   get_amazon_ec2_prices with_excluded_rows ''c5.large'' ''Linux'' =
     get_amazon_ec2_prices reserved_and_on_demand ''c5.large'' ''Linux'' \<and>
   get_amazon_ec2_prices with_excluded_rows ''c5.large'' ''Linux'' =
     Inr [((''eu'', ''Shared'', ''1yr'', ''All Upfront''), 1),
          ((''eu'', ''Shared'', ''3yr'', ''All Upfront''), 3 / 2),
          ((''eu'', ''Shared'', ''No'', ''N/A''), 1 / 10)]"
proof -
  have same: "filter (\<lambda>r. \<not> excluded r) with_excluded_rows =
      filter (\<lambda>r. \<not> excluded r) reserved_and_on_demand"
    by code_simp
  have plain: "get_amazon_ec2_prices reserved_and_on_demand ''c5.large'' ''Linux'' =
     Inr [((''eu'', ''Shared'', ''1yr'', ''All Upfront''), 1),
          ((''eu'', ''Shared'', ''3yr'', ''All Upfront''), 3 / 2),
          ((''eu'', ''Shared'', ''No'', ''N/A''), 1 / 10)]"
    by code_simp
  from excluded_rows_do_not_contribute [OF same, of "''c5.large''" "''Linux''"] same plain
  show ?thesis by simp
qed






lemma get_amazon_ec2_prices_returns:
  "(\<exists>prices. get_amazon_ec2_prices amazon_ec2_data instance os = Inr prices) \<longleftrightarrow>
     distinct (map index_keys (filter_rows amazon_ec2_data instance os)) \<and>
     ''Hrs'' \<in> Unit ` set (filter_rows amazon_ec2_data instance os) \<and>
     ''Quantity'' \<in> Unit ` set (filter_rows amazon_ec2_data instance os)"
  by (auto simp: get_amazon_ec2_prices_def unstack_def price_column_def Let_def
      split: sum.splits if_splits)




section \<open>Decimal numerals in identifiers\<close>

lemma digit_char_inj: "a < 10 \<Longrightarrow> b < 10 \<Longrightarrow> digit_char a = digit_char b \<Longrightarrow> a = b"
proof -
  assume a: "a < 10" and b: "b < 10" and e: "digit_char a = digit_char b"
  have d: "distinct ''0123456789''" by simp
  have "a < length ''0123456789''" "b < length ''0123456789''" using a b by simp_all
  with d e show "a = b" unfolding digit_char_def by (simp only: nth_eq_iff_index_eq)
qed

lemma digit_char_is_digit: "d < 10 \<Longrightarrow> is_digit (digit_char d)"
proof -
  assume "d < 10"
  then have "d < length ''0123456789''" by simp
  then have "''0123456789'' ! d \<in> set ''0123456789''" by (rule nth_mem)
  then show ?thesis by (simp only: is_digit_def digit_char_def)
qed

lemma str_nat_digits: "str_nat n \<noteq> [] \<and> (\<forall>c \<in> set (str_nat n). is_digit c)"
proof (induction n rule: str_nat.induct)
  case (1 n)
  show ?case
  proof (cases "n < 10")
    case True
    then show ?thesis by (simp add: str_nat.simps [of n] digit_char_is_digit)
  next
    case False
    with 1 show ?thesis by (simp add: str_nat.simps [of n] digit_char_is_digit)
  qed
qed

lemma str_nat_inj: "str_nat m = str_nat n \<Longrightarrow> m = n"
proof (induction m arbitrary: n rule: str_nat.induct)
  case (1 m)
  show ?case
  proof (cases "m < 10")
    case m: True
    show ?thesis
    proof (cases "n < 10")
      case True
      with m "1.prems" show ?thesis
        by (simp add: str_nat.simps [of m] str_nat.simps [of n] digit_char_inj)
    next
      case False
      with m "1.prems" str_nat_digits [of "n div 10"] show ?thesis
        by (simp add: str_nat.simps [of m] str_nat.simps [of n])
    qed
  next
    case m: False
    show ?thesis
    proof (cases "n < 10")
      case True
      with m "1.prems" str_nat_digits [of "m div 10"] show ?thesis
        by (simp add: str_nat.simps [of m] str_nat.simps [of n])
    next
      case False
      with m "1.prems" have "str_nat (m div 10) = str_nat (n div 10)"
        and "digit_char (m mod 10) = digit_char (n mod 10)"
        by (simp_all add: str_nat.simps [of m] str_nat.simps [of n])
      with "1.IH" [OF m] have "m div 10 = n div 10" "m mod 10 = n mod 10"
        by (auto intro: digit_char_inj)
      then show ?thesis by (metis div_mult_mod_eq)
    qed
  qed
qed


lemma str_int_inj: "1 \<le> z \<Longrightarrow> 1 \<le> z' \<Longrightarrow> str_int z = str_int z' \<Longrightarrow> z = z'"
  using str_nat_inj [of "nat z" "nat z'"] by (simp add: str_int_def)


section \<open>The instance catalog\<close>




lemma on_demand_classes_filter:
  "on_demand_classes region_name region region_data =
     map (\<lambda>(i, dat). on_demand_class region_name region i dat (the (on_demand_dat dat)))
       (filter (\<lambda>(i, dat). on_demand_dat dat \<noteq> None) region_data)"
  unfolding on_demand_classes_def
  by (induction region_data) (auto split: option.splits)

lemma reserved_classes_product:
  "reserved_classes region_name zones region_data =
     map (\<lambda>((i, dat), (zone, zone_obj)).
            reserved_class region_name zone zone_obj i (the (reserved_dat dat)))
       (List.product (filter (\<lambda>(i, dat). reserved_dat dat \<noteq> None) region_data) zones)"
proof -
  have inner: "concat (map (\<lambda>(zone, zone_obj).
         case reserved_dat dat of
           None \<Rightarrow> []
         | Some p \<Rightarrow> [reserved_class region_name zone zone_obj i p]) zones) =
      (if reserved_dat dat = None then []
       else map (\<lambda>(zone, zone_obj).
             reserved_class region_name zone zone_obj i (the (reserved_dat dat))) zones)"
    for i and dat :: region_datum
    by (induction zones) (auto split: option.splits)
  show ?thesis
    unfolding reserved_classes_def
    by (induction region_data) (auto simp: inner case_prod_beta)
qed

lemma zones_upto:
  "zip [Suc n ..< Suc (n + length (zone_sets region_name g z))] (zone_sets region_name g z) =
     map (\<lambda>k. (n + nat k, zone_set region_name g k)) [1..z]"
  by (rule nth_equalityI) (auto simp: zone_sets_def nat_add_distrib simp del: upt_Suc)

lemma generate_result:
  assumes "generate_amazon_region_instances heap amazon_ec2_data region_name
      max_inst_per_type max_inst_per_group availability_zones instance_names = Inr (heap', ins)"
  shows "\<exists>rd. fill_region_data amazon_ec2_data region_name max_inst_per_type
           (sort instance_names) [] = Inr rd \<and>
     heap' = heap @ region_set region_name max_inst_per_group #
               map (zone_set region_name max_inst_per_group) [1..availability_zones] \<and>
     ins = map (\<lambda>(i, dat).
                 on_demand_class region_name (length heap) i dat (the (on_demand_dat dat)))
             (filter (\<lambda>(i, dat). on_demand_dat dat \<noteq> None) rd) @
           map (\<lambda>((i, dat), k).
                 reserved_class region_name (length heap + nat k)
                   (zone_set region_name max_inst_per_group k) i (the (reserved_dat dat)))
             (List.product (filter (\<lambda>(i, dat). reserved_dat dat \<noteq> None) rd)
                [1..availability_zones])"
proof -
  from assms obtain rd where rd: "fill_region_data amazon_ec2_data region_name
      max_inst_per_type (sort instance_names) [] = Inr rd"
    by (auto simp: generate_amazon_region_instances_def split: sum.splits)
  have prod: "List.product xs (map f ys) = map (\<lambda>(x, y). (x, f y)) (List.product xs ys)"
    for xs :: "(string \<times> region_datum) list" and f :: "int \<Rightarrow> ref \<times> LimitingSet" and ys
    by (induction xs) (simp_all add: comp_def)
  from assms rd have "heap' = heap @ region_set region_name max_inst_per_group #
               map (zone_set region_name max_inst_per_group) [1..availability_zones]"
    by (simp add: generate_amazon_region_instances_def Let_def zone_sets_def)
  moreover from assms rd have "ins = on_demand_classes region_name (length heap) rd @
      reserved_classes region_name
        (map (\<lambda>k. (length heap + nat k, zone_set region_name max_inst_per_group k))
           [1..availability_zones]) rd"
    by (simp add: generate_amazon_region_instances_def Let_def zones_upto del: upt_Suc)
  ultimately show ?thesis
    using rd
    by (simp add: on_demand_classes_filter reserved_classes_product prod comp_def
        case_prod_beta)
qed







lemma nth_store:
  assumes "1 \<le> k" and "k \<le> availability_zones"
  shows "(heap @ r # map f [1..availability_zones]) ! (length heap + nat k) = f k"
proof -
  have "nat k - 1 < length [1..availability_zones]" using assms by simp
  moreover have "[1..availability_zones] ! (nat k - 1) = k" using assms by simp
  moreover have "nat k \<noteq> 0" using assms by simp
  ultimately show ?thesis by (simp add: nth_append nth_Cons')
qed

text \<open>
  Claim C5, amended. The function has one cap parameter for both kinds of limiting set,
  \<open>max_inst_per_group\<close>: the limiting set of the region and the limiting set of each of
  the \<open>availability_zones\<close> zones all have \<open>max_vms\<close> equal to it. The store grows by
  these limiting sets and no other.
\<close>

theorem group_cap_is_shared:
  assumes "generate_amazon_region_instances heap amazon_ec2_data region_name
      max_inst_per_type max_inst_per_group availability_zones instance_names = Inr (heap', ins)"
  shows "length heap' = length heap + 1 + nat availability_zones \<and>
     heap' ! length heap = region_set region_name max_inst_per_group \<and>
     max_vms_ls (heap' ! length heap) = max_inst_per_group \<and>
     (\<forall>z. 1 \<le> z \<and> z \<le> availability_zones \<longrightarrow>
        heap' ! (length heap + nat z) = zone_set region_name max_inst_per_group z \<and>
        max_vms_ls (heap' ! (length heap + nat z)) = max_inst_per_group)"
proof -
  from generate_result [OF assms] have h: "heap' = heap @
      region_set region_name max_inst_per_group #
        map (zone_set region_name max_inst_per_group) [1..availability_zones]" by blast
  have "length heap' = length heap + 1 + nat availability_zones" by (simp add: h)
  moreover have "heap' ! length heap = region_set region_name max_inst_per_group"
    by (simp add: h)
  moreover have "max_vms_ls (heap' ! length heap) = max_inst_per_group"
    by (simp add: h region_set_def)
  moreover have "heap' ! (length heap + nat z) = zone_set region_name max_inst_per_group z \<and>
        max_vms_ls (heap' ! (length heap + nat z)) = max_inst_per_group"
    if "1 \<le> z \<and> z \<le> availability_zones" for z
  proof -
    from that have "1 \<le> z" and "z \<le> availability_zones" by simp_all
    then have "heap' ! (length heap + nat z) = zone_set region_name max_inst_per_group z"
      unfolding h by (rule nth_store)
    then show ?thesis by (simp add: zone_set_def)
  qed
  ultimately show ?thesis by blast
qed

text \<open>
  Claim C3. In the catalog of a region every on-demand class has one limiting set, the
  same object for all of them, the limiting set of the region. Every reserved class has
  one limiting set, the object built for the zone that the identifier of the class
  names. Different zones have different objects with different values, and an
  on-demand and a reserved class share no limiting set, neither as an object nor as a
  value.
\<close>

theorem constraint_sets:
  assumes "generate_amazon_region_instances heap amazon_ec2_data region_name
      max_inst_per_type max_inst_per_group availability_zones instance_names = Inr (heap', ins)"
  shows "(\<forall>ic \<in> set ins. \<not> is_reserved ic \<longrightarrow> limiting_sets ic = [length heap]) \<and>
     length heap < length heap' \<and>
     heap' ! length heap = region_set region_name max_inst_per_group \<and>
     (\<forall>ic \<in> set ins. is_reserved ic \<longrightarrow>
        (\<exists>z. 1 \<le> z \<and> z \<le> availability_zones \<and>
           limiting_sets ic = [length heap + nat z] \<and>
           length heap + nat z < length heap' \<and>
           heap' ! (length heap + nat z) = zone_set region_name max_inst_per_group z \<and>
           id_ic ic = name_ic ic @ ''_'' @ region_name @ ''_'' @ region_name @ ''_AZ'' @
             str_int z)) \<and>
     (\<forall>z z'. 1 \<le> z \<and> z \<le> availability_zones \<and> 1 \<le> z' \<and> z' \<le> availability_zones \<and>
        z \<noteq> z' \<longrightarrow>
        length heap + nat z \<noteq> length heap + nat z' \<and>
        heap' ! (length heap + nat z) \<noteq> heap' ! (length heap + nat z')) \<and>
     (\<forall>a \<in> set ins. \<forall>b \<in> set ins. \<not> is_reserved a \<and> is_reserved b \<longrightarrow>
        set (limiting_sets a) \<inter> set (limiting_sets b) = {} \<and>
        (\<forall>ra \<in> set (limiting_sets a). \<forall>rb \<in> set (limiting_sets b).
           heap' ! ra \<noteq> heap' ! rb))"
proof -
  from generate_result [OF assms] obtain rd where
    h: "heap' = heap @ region_set region_name max_inst_per_group #
               map (zone_set region_name max_inst_per_group) [1..availability_zones]"
    and ins: "ins = map (\<lambda>(i, dat).
                 on_demand_class region_name (length heap) i dat (the (on_demand_dat dat)))
             (filter (\<lambda>(i, dat). on_demand_dat dat \<noteq> None) rd) @
           map (\<lambda>((i, dat), k).
                 reserved_class region_name (length heap + nat k)
                   (zone_set region_name max_inst_per_group k) i (the (reserved_dat dat)))
             (List.product (filter (\<lambda>(i, dat). reserved_dat dat \<noteq> None) rd)
                [1..availability_zones])"
    by blast
  have od: "limiting_sets ic = [length heap]" if "ic \<in> set ins" "\<not> is_reserved ic" for ic
    using that by (auto simp: ins on_demand_class_def reserved_class_def)
  have zone: "heap' ! (length heap + nat z) = zone_set region_name max_inst_per_group z"
    and zlen: "length heap + nat z < length heap'"
    if "1 \<le> z" "z \<le> availability_zones" for z
    using that unfolding h by (simp_all only: nth_store) simp
  have rs: "\<exists>z. 1 \<le> z \<and> z \<le> availability_zones \<and>
           limiting_sets ic = [length heap + nat z] \<and>
           length heap + nat z < length heap' \<and>
           heap' ! (length heap + nat z) = zone_set region_name max_inst_per_group z \<and>
           id_ic ic = name_ic ic @ ''_'' @ region_name @ ''_'' @ region_name @ ''_AZ'' @
             str_int z"
    if "ic \<in> set ins" "is_reserved ic" for ic
  proof -
    from that obtain i p k where k: "k \<in> set [1..availability_zones]"
      and ic: "ic = reserved_class region_name (length heap + nat k)
                   (zone_set region_name max_inst_per_group k) i p"
      by (auto simp: ins on_demand_class_def)
    from k have k1: "1 \<le> k" "k \<le> availability_zones" by simp_all
    show ?thesis
      using k1 zone [OF k1] zlen [OF k1]
      by (intro exI [of _ k]) (simp add: ic reserved_class_def zone_set_def)
  qed
  have regv: "heap' ! length heap = region_set region_name max_inst_per_group"
    by (simp add: h)
  have rz: "region_set region_name max_inst_per_group \<noteq> zone_set region_name g z" for g z
    by (simp add: region_set_def zone_set_def)
  have zz: "length heap + nat z \<noteq> length heap + nat z' \<and>
        heap' ! (length heap + nat z) \<noteq> heap' ! (length heap + nat z')"
    if "1 \<le> z" "z \<le> availability_zones" "1 \<le> z'" "z' \<le> availability_zones" "z \<noteq> z'"
    for z z'
  proof -
    have "str_int z \<noteq> str_int z'" using that str_int_inj [of z z'] by blast
    then have "zone_set region_name max_inst_per_group z \<noteq>
        zone_set region_name max_inst_per_group z'"
      by (simp add: zone_set_def)
    with that zone show ?thesis by simp
  qed
  have cross: "set (limiting_sets a) \<inter> set (limiting_sets b) = {} \<and>
        (\<forall>ra \<in> set (limiting_sets a). \<forall>rb \<in> set (limiting_sets b). heap' ! ra \<noteq> heap' ! rb)"
    if "a \<in> set ins" "b \<in> set ins" "\<not> is_reserved a" "is_reserved b" for a b
  proof -
    from od that have a: "limiting_sets a = [length heap]" by blast
    from rs that obtain z where z: "1 \<le> z" "limiting_sets b = [length heap + nat z]"
      "heap' ! (length heap + nat z) = zone_set region_name max_inst_per_group z" by blast
    show ?thesis using a z regv rz by simp
  qed
  have "length heap < length heap'" by (simp add: h)
  with od rs regv zz cross show ?thesis by blast
qed



section \<open>An example catalog\<close>

lemma catalog_example:
  "generate_amazon_region_instances [] catalog_table ''eu-1'' 7 20 2
     [''c5.xlarge'', ''c5.large'', ''c5.2xlarge''] =
   Inr ([region_set ''eu-1'' 20, zone_set ''eu-1'' 20 1, zone_set ''eu-1'' 20 2],
        [on_demand_class ''eu-1'' 0 ''c5.large'' priced (1 / 10),
         on_demand_class ''eu-1'' 0 ''c5.xlarge'' priced (1 / 10),
         reserved_class ''eu-1'' 1 (zone_set ''eu-1'' 20 1) ''c5.large'' (1 / 20),
         reserved_class ''eu-1'' 2 (zone_set ''eu-1'' 20 2) ''c5.large'' (1 / 20),
         reserved_class ''eu-1'' 1 (zone_set ''eu-1'' 20 1) ''c5.xlarge'' (1 / 20),
         reserved_class ''eu-1'' 2 (zone_set ''eu-1'' 20 2) ''c5.xlarge'' (1 / 20)])"
  by code_simp


theorem constraint_sets_witness:
  "generate_amazon_region_instances [] catalog_table ''eu-1'' 7 20 2
     [''c5.xlarge'', ''c5.large'', ''c5.2xlarge''] =
   Inr ([region_set ''eu-1'' 20, zone_set ''eu-1'' 20 1, zone_set ''eu-1'' 20 2],
        [on_demand_class ''eu-1'' 0 ''c5.large'' priced (1 / 10),
         on_demand_class ''eu-1'' 0 ''c5.xlarge'' priced (1 / 10),
         reserved_class ''eu-1'' 1 (zone_set ''eu-1'' 20 1) ''c5.large'' (1 / 20),
         reserved_class ''eu-1'' 2 (zone_set ''eu-1'' 20 2) ''c5.large'' (1 / 20),
         reserved_class ''eu-1'' 1 (zone_set ''eu-1'' 20 1) ''c5.xlarge'' (1 / 20),
         reserved_class ''eu-1'' 2 (zone_set ''eu-1'' 20 2) ''c5.xlarge'' (1 / 20)]) \<and>
   limiting_sets (on_demand_class ''eu-1'' 0 ''c5.large'' priced (1 / 10)) = [0] \<and>
   limiting_sets (on_demand_class ''eu-1'' 0 ''c5.xlarge'' priced (1 / 10)) = [0] \<and>
   [region_set ''eu-1'' 20, zone_set ''eu-1'' 20 1, zone_set ''eu-1'' 20 2] ! 0 =
     region_set ''eu-1'' 20 \<and>
   set (limiting_sets (on_demand_class ''eu-1'' 0 ''c5.large'' priced (1 / 10))) \<inter>
     set (limiting_sets (reserved_class ''eu-1'' 1 (zone_set ''eu-1'' 20 1) ''c5.large''
       (1 / 20))) = {}"
proof -
  let ?heap' = "[region_set ''eu-1'' 20, zone_set ''eu-1'' 20 1, zone_set ''eu-1'' 20 2]"
  let ?a = "on_demand_class ''eu-1'' 0 ''c5.large'' priced (1 / 10)"
  let ?a' = "on_demand_class ''eu-1'' 0 ''c5.xlarge'' priced (1 / 10)"
  let ?b = "reserved_class ''eu-1'' 1 (zone_set ''eu-1'' 20 1) ''c5.large'' (1 / 20)"
  let ?ins = "[?a, ?a', ?b,
         reserved_class ''eu-1'' 2 (zone_set ''eu-1'' 20 2) ''c5.large'' (1 / 20),
         reserved_class ''eu-1'' 1 (zone_set ''eu-1'' 20 1) ''c5.xlarge'' (1 / 20),
         reserved_class ''eu-1'' 2 (zone_set ''eu-1'' 20 2) ''c5.xlarge'' (1 / 20)]"
  note c = constraint_sets [OF catalog_example]
  have mem: "?a \<in> set ?ins" "?a' \<in> set ?ins" "?b \<in> set ?ins" by simp_all
  have od: "\<not> is_reserved ?a" "\<not> is_reserved ?a'" by (simp_all add: on_demand_class_def)
  have rs: "is_reserved ?b" by (simp add: reserved_class_def)
  from c have c1: "\<forall>ic \<in> set ?ins. \<not> is_reserved ic \<longrightarrow>
      limiting_sets ic = [length ([] :: store)]" by (rule conjunct1)
  from c have c3: "?heap' ! length ([] :: store) = region_set ''eu-1'' 20" by blast
  from c have c6: "\<forall>a \<in> set ?ins. \<forall>b \<in> set ?ins. \<not> is_reserved a \<and> is_reserved b \<longrightarrow>
        set (limiting_sets a) \<inter> set (limiting_sets b) = {} \<and>
        (\<forall>ra \<in> set (limiting_sets a). \<forall>rb \<in> set (limiting_sets b).
           ?heap' ! ra \<noteq> ?heap' ! rb)" by blast
  from c1 mem(1) od(1) have "limiting_sets ?a = [length ([] :: store)]" by blast
  then have 1: "limiting_sets ?a = [0]" by simp
  from c1 mem(2) od(2) have "limiting_sets ?a' = [length ([] :: store)]" by blast
  then have 2: "limiting_sets ?a' = [0]" by simp
  from c3 have 3: "?heap' ! 0 = region_set ''eu-1'' 20" by simp
  from c6 mem(1) mem(3) od(1) rs
  have 4: "set (limiting_sets ?a) \<inter> set (limiting_sets ?b) = {}" by blast
  from catalog_example 1 2 3 4 show ?thesis by blast
qed

theorem group_cap_is_shared_witness:
  "generate_amazon_region_instances [] catalog_table ''eu-1'' 7 20 2
     [''c5.xlarge'', ''c5.large'', ''c5.2xlarge''] =
   Inr ([region_set ''eu-1'' 20, zone_set ''eu-1'' 20 1, zone_set ''eu-1'' 20 2],
        [on_demand_class ''eu-1'' 0 ''c5.large'' priced (1 / 10),
         on_demand_class ''eu-1'' 0 ''c5.xlarge'' priced (1 / 10),
         reserved_class ''eu-1'' 1 (zone_set ''eu-1'' 20 1) ''c5.large'' (1 / 20),
         reserved_class ''eu-1'' 2 (zone_set ''eu-1'' 20 2) ''c5.large'' (1 / 20),
         reserved_class ''eu-1'' 1 (zone_set ''eu-1'' 20 1) ''c5.xlarge'' (1 / 20),
         reserved_class ''eu-1'' 2 (zone_set ''eu-1'' 20 2) ''c5.xlarge'' (1 / 20)]) \<and>
   max_vms_ls ([region_set ''eu-1'' 20, zone_set ''eu-1'' 20 1, zone_set ''eu-1'' 20 2] ! 0) =
     20 \<and>
   max_vms_ls ([region_set ''eu-1'' 20, zone_set ''eu-1'' 20 1, zone_set ''eu-1'' 20 2] ! 1) =
     20 \<and>
   max_vms_ls ([region_set ''eu-1'' 20, zone_set ''eu-1'' 20 1, zone_set ''eu-1'' 20 2] ! 2) =
     20"
proof -
  let ?heap' = "[region_set ''eu-1'' 20, zone_set ''eu-1'' 20 1, zone_set ''eu-1'' 20 2]"
  note c = group_cap_is_shared [OF catalog_example]
  from c have r: "max_vms_ls (?heap' ! length ([] :: store)) = 20" by blast
  from c have z: "\<forall>z. 1 \<le> z \<and> z \<le> 2 \<longrightarrow>
        ?heap' ! (length ([] :: store) + nat z) = zone_set ''eu-1'' 20 z \<and>
        max_vms_ls (?heap' ! (length ([] :: store) + nat z)) = 20" by blast
  have "(1::int) \<le> 1 \<and> (1::int) \<le> 2" by simp
  with z have "max_vms_ls (?heap' ! (length ([] :: store) + nat 1)) = 20" by blast
  then have 1: "max_vms_ls (?heap' ! 1) = 20" by simp
  have "(1::int) \<le> 2 \<and> (2::int) \<le> 2" by simp
  with z have "max_vms_ls (?heap' ! (length ([] :: store) + nat 2)) = 20" by blast
  then have 2: "max_vms_ls (?heap' ! 2) = 20" by simp
  from r have 0: "max_vms_ls (?heap' ! 0) = 20" by simp
  from catalog_example 0 1 2 show ?thesis by blast
qed

text \<open>
  Claim C5 as stated fails: the call has the type cap 7, the group cap 20 and 2 zones,
  and each of the two zones gets the cap 20 of the region; there is no argument that
  would give the zones a cap of their own.
\<close>

theorem zone_cap_counterexample:
  "generate_amazon_region_instances [] catalog_table ''eu-1'' 7 20 2 [''c5.large''] =
   Inr ([\<lparr> id_ls = ''eu-1'', name_ls = ''eu-1'', max_vms_ls = 20 \<rparr>,
         \<lparr> id_ls = ''eu-1_AZ1'', name_ls = ''eu-1_AZ1'', max_vms_ls = 20 \<rparr>,
         \<lparr> id_ls = ''eu-1_AZ2'', name_ls = ''eu-1_AZ2'', max_vms_ls = 20 \<rparr>],
        [on_demand_class ''eu-1'' 0 ''c5.large'' priced (1 / 10),
         reserved_class ''eu-1'' 1 (zone_set ''eu-1'' 20 1) ''c5.large'' (1 / 20),
         reserved_class ''eu-1'' 2 (zone_set ''eu-1'' 20 2) ''c5.large'' (1 / 20)])"
  by code_simp



end
